theory Spec2Isabelle
  imports Main
begin

section \<open>The plugin's data\<close>

text \<open>
  The structure \<open>Args\<close> of \<open>plugin/plugin.go\<close>. The embedded structure \<open>Pipeline\<close> is
  declared in another file of the package; \<open>Exec\<close> never reads it, so its type is a
  parameter. Go strings are byte sequences, as \<open>string\<close> is. \<open>Retries\<close> and \<open>Threads\<close>
  are Go \<open>int\<close>s that are only compared with zero and printed, so no arithmetic can
  overflow and they are integers here.
\<close>

record 'p Args =
  Pipeline :: 'p
  Level :: string
  Username :: string
  Password :: string
  APIKey :: string
  AccessToken :: string
  URL :: string
  Source :: string
  Target :: string
  Retries :: int
  Flat :: string
  Spec :: string
  Threads :: int
  SpecVars :: string
  Insecure :: string
  PEMFileContents :: string
  PEMFilePath :: string

text \<open>
  A Go \<open>error\<close> value is \<open>error option\<close>, \<open>nil\<close> being \<open>None\<close>. An error is made either by
  \<open>fmt.Errorf\<close>, with its formatted message, or by the packages \<open>os\<close>, \<open>os/exec\<close> and
  \<open>strconv\<close>; of the latter the program observes the message and whether
  \<open>os.IsNotExist\<close> holds of it.
\<close>

datatype error = Errorf string | LibError bool string

fun Error :: "error \<Rightarrow> string" where
  "Error (Errorf msg) = msg"
| "Error (LibError notexist msg) = msg"

fun os_IsNotExist :: "error option \<Rightarrow> bool" where
  "os_IsNotExist None = False"
| "os_IsNotExist (Some (Errorf msg)) = False"
| "os_IsNotExist (Some (LibError notexist msg)) = notexist"

text \<open>The structure \<open>exec.Cmd\<close>, with the fields the program sets.\<close>

datatype stream = os_Stdout | os_Stderr

record Cmd =
  cmd_Args :: "string list"
  cmd_Env :: "string list"
  cmd_Stdout :: "stream option"
  cmd_Stderr :: "stream option"

definition exec_Command :: "string \<Rightarrow> string list \<Rightarrow> Cmd" where
  "exec_Command name arg =
     \<lparr>cmd_Args = name # arg, cmd_Env = [], cmd_Stdout = None, cmd_Stderr = None\<rparr>"

section \<open>The host: what the program does to the outside, and what it gets back\<close>

text \<open>
  Every call that reaches outside the process is recorded as an event, in the order of the
  calls: a formatted write to standard output (the format and its arguments), the run of a
  child process, and the three file-system calls with their arguments (a file mode is a
  number).
\<close>

datatype event =
    Stdout_Printf string "string list"
  | Cmd_Run Cmd
  | Os_Stat string
  | Os_MkdirAll string nat
  | Os_WriteFile string string nat

text \<open>
  The host gives \<open>runtime.GOOS\<close>, \<open>os.Environ()\<close> and the outcome of each outside call.
  \<open>filepath.Dir\<close> belongs to the Go library and is a parameter as well.
\<close>

record host =
  GOOS :: string
  os_Environ :: "string list"
  run_result :: "Cmd \<Rightarrow> error option"
  stat_result :: "string \<Rightarrow> error option"
  mkdirall_result :: "string \<Rightarrow> nat \<Rightarrow> error option"
  writefile_result :: "string \<Rightarrow> string \<Rightarrow> nat \<Rightarrow> error option"
  filepath_Dir :: "string \<Rightarrow> string"

definition cmd_Run :: "host \<Rightarrow> Cmd \<Rightarrow> error option \<times> event list" where
  "cmd_Run h c = (run_result h c, [Cmd_Run c])"

definition os_Stat :: "host \<Rightarrow> string \<Rightarrow> error option \<times> event list" where
  "os_Stat h path = (stat_result h path, [Os_Stat path])"

definition os_MkdirAll :: "host \<Rightarrow> string \<Rightarrow> nat \<Rightarrow> error option \<times> event list" where
  "os_MkdirAll h dir perm = (mkdirall_result h dir perm, [Os_MkdirAll dir perm])"

definition os_WriteFile :: "host \<Rightarrow> string \<Rightarrow> string \<Rightarrow> nat \<Rightarrow> error option \<times> event list" where
  "os_WriteFile h path data perm = (writefile_result h path data perm, [Os_WriteFile path data perm])"

section \<open>Library functions\<close>

abbreviation newline :: char where "newline \<equiv> CHR 0x0A"
abbreviation dquote :: char where "dquote \<equiv> CHR 0x22"
abbreviation squote :: char where "squote \<equiv> CHR 0x27"

text \<open>An octal literal of Go, such as \<open>0700\<close>, from its digits.\<close>

definition octal :: "nat list \<Rightarrow> nat" where
  "octal ds = foldl (\<lambda>a d. 8 * a + d) 0 ds"

text \<open>\<open>strings.Join\<close>.\<close>

fun Join :: "string list \<Rightarrow> string \<Rightarrow> string" where
  "Join [] sep = []"
| "Join [x] sep = x"
| "Join (x # y # ys) sep = x @ sep @ Join (y # ys) sep"

text \<open>The verb \<open>%d\<close> of \<open>fmt.Sprintf\<close> on an integer: decimal, with a minus sign.\<close>

definition digit :: "nat \<Rightarrow> char" where
  "digit d = char_of (48 + d)"

function decimal :: "nat \<Rightarrow> string" where
  "decimal n = (if n < 10 then [digit n] else decimal (n div 10) @ [digit (n mod 10)])"
  by pat_completeness auto
termination
  by (relation "measure id") auto

declare decimal.simps [simp del]

definition fmt_d :: "int \<Rightarrow> string" where
  "fmt_d i = (if i < 0 then CHR ''-'' # decimal (nat (- i)) else decimal (nat i))"

text \<open>
  \<open>strconv.ParseBool\<close> and \<open>strconv.FormatBool\<close>. The error of \<open>ParseBool\<close> wraps
  \<open>strconv.ErrSyntax\<close>, whose text stands for it here; the program never reads it.
\<close>

definition strconv_ParseBool :: "string \<Rightarrow> bool \<times> error option" where
  "strconv_ParseBool str =
     (if str \<in> {''1'', ''t'', ''T'', ''true'', ''TRUE'', ''True''} then (True, None)
      else if str \<in> {''0'', ''f'', ''F'', ''false'', ''FALSE'', ''False''} then (False, None)
      else (False, Some (LibError False ''invalid syntax'')))"

definition strconv_FormatBool :: "bool \<Rightarrow> string" where
  "strconv_FormatBool b = (if b then ''true'' else ''false'')"

section \<open>The program\<close>

definition getShell :: "host \<Rightarrow> string \<times> string" where
  "getShell h = (if GOOS h = ''windows'' then (''powershell'', ''-Command'') else (''sh'', ''-c''))"

definition getSleepCommand :: "host \<Rightarrow> string" where
  "getSleepCommand h = (if GOOS h = ''windows'' then ''Start-Sleep 600'' else ''sleep 600'')"

definition getJfrogBin :: "host \<Rightarrow> string" where
  "getJfrogBin h = (if GOOS h = ''windows'' then ''C:/bin/jfrog.exe'' else ''jfrog'')"

definition getEnvPrefix :: "host \<Rightarrow> string" where
  "getEnvPrefix h = (if GOOS h = ''windows'' then ''$Env:'' else ''$'')"

definition parseBoolOrDefault :: "bool \<Rightarrow> string \<Rightarrow> bool" where
  "parseBoolOrDefault defaultValue s =
     (let (result, err) = strconv_ParseBool s
      in if err \<noteq> None then defaultValue else result)"

definition trace :: "Cmd \<Rightarrow> event list" where
  "trace cmd = [Stdout_Printf (''+ %s'' @ [newline]) [Join (cmd_Args cmd) '' '']]"

text \<open>
  \<open>putSleep\<close> returns nothing: its value here is the events it causes. The error of
  \<open>cmd.Run()\<close> is assigned to the blank identifier.
\<close>

definition putSleep :: "host \<Rightarrow> event list" where
  "putSleep h =
     (let cmdStr = getSleepCommand h;
          (shell, shArg) = getShell h;
          cmd = exec_Command shell [shArg, cmdStr];
          cmd = cmd\<lparr>cmd_Env := os_Environ h\<rparr>;
          cmd = cmd\<lparr>cmd_Stdout := Some os_Stdout\<rparr>;
          cmd = cmd\<lparr>cmd_Stderr := Some os_Stderr\<rparr>;
          ev1 = trace cmd;
          (_, ev2) = cmd_Run h cmd
      in ev1 @ ev2)"

text \<open>
  Lines 97 to 125 of \<open>Exec\<close>, the writing of the pem file: the error it returns from
  \<open>Exec\<close> with, if any, and its events.
\<close>

definition createPemFile :: "host \<Rightarrow> 'p Args \<Rightarrow> bool \<Rightarrow> error option \<times> event list" where
  "createPemFile h args insecure =
     (if PEMFileContents args \<noteq> [] \<and> \<not> insecure then
        let path =
              (if PEMFilePath args = [] then
                 (if GOOS h = ''windows''
                  then ''C:/users/ContainerAdministrator/.jfrog/security/certs/cert.pem''
                  else ''/root/.jfrog/security/certs/cert.pem'')
               else PEMFilePath args);
            ev1 = [Stdout_Printf (''Creating pem file at %q'' @ [newline]) [path]];
            (err, ev2) = os_Stat h path
        in if os_IsNotExist err then
             let dir = filepath_Dir h path;
                 (pemFolderErr, ev3) = os_MkdirAll h dir (octal [0, 7, 0, 0])
             in case pemFolderErr of
                  Some e \<Rightarrow>
                    (Some (Errorf (''error creating pem folder: '' @ Error e)), ev1 @ ev2 @ ev3)
                | None \<Rightarrow>
                    let (pemWriteErr, ev4) =
                          os_WriteFile h path (PEMFileContents args) (octal [0, 6, 0, 0])
                    in (case pemWriteErr of
                          Some e \<Rightarrow>
                            (Some (Errorf (''error writing pem file: '' @ Error e)),
                             ev1 @ ev2 @ ev3 @ ev4)
                        | None \<Rightarrow>
                            (None,
                             ev1 @ ev2 @ ev3 @ ev4 @
                             [Stdout_Printf (''Successfully created pem file at %q'' @ [newline])
                                [path]]))
           else (None, ev1 @ ev2)
      else (None, []))"

text \<open>
  Lines 63 to 140 of \<open>Exec\<close>: the validations, the flags and the pem file. Its value is the
  error \<open>Exec\<close> returns with, or the final \<open>cmdArgs\<close>, and the events caused.
\<close>

definition Exec_cmdArgs :: "host \<Rightarrow> 'p Args \<Rightarrow> (error + string list) \<times> event list" where
  "Exec_cmdArgs h args =
     (if URL args = [] then (Inl (Errorf ''url needs to be set''), [])
      else
        let cmdArgs = [getJfrogBin h, ''rt'', ''u'', ''--url '' @ URL args];
            cmdArgs = (if Retries args \<noteq> 0
                       then cmdArgs @ [''--retries='' @ fmt_d (Retries args)] else cmdArgs);
            envPrefix = getEnvPrefix h
        in case (if Username args \<noteq> [] \<and> Password args \<noteq> [] then
                   Inr (cmdArgs @ [''--user '' @ envPrefix @ ''PLUGIN_USERNAME'',
                                   ''--password '' @ envPrefix @ ''PLUGIN_PASSWORD''])
                 else if APIKey args \<noteq> [] then
                   Inr (cmdArgs @ [''--apikey '' @ envPrefix @ ''PLUGIN_API_KEY''])
                 else if AccessToken args \<noteq> [] then
                   Inr (cmdArgs @ [''--access-token '' @ envPrefix @ ''PLUGIN_ACCESS_TOKEN''])
                 else
                   Inl (Errorf ''either username/password, api key or access token needs to be set''))
           of
             Inl e \<Rightarrow> (Inl e, [])
           | Inr cmdArgs \<Rightarrow>
               let flat = parseBoolOrDefault False (Flat args);
                   cmdArgs = cmdArgs @ [''--flat='' @ strconv_FormatBool flat];
                   cmdArgs = (if Threads args > 0
                              then cmdArgs @ [''--threads='' @ fmt_d (Threads args)] else cmdArgs);
                   insecure = parseBoolOrDefault False (Insecure args);
                   cmdArgs = (if insecure then cmdArgs @ [''--insecure-tls''] else cmdArgs);
                   (pemErr, ev) = createPemFile h args insecure
               in (case pemErr of
                    Some e \<Rightarrow> (Inl e, ev)
                  | None \<Rightarrow>
                      if Spec args \<noteq> [] then
                        let cmdArgs = cmdArgs @ [''--spec='' @ Spec args];
                            cmdArgs = (if SpecVars args \<noteq> []
                                       then cmdArgs @ [''--spec-vars='' @ [squote] @ SpecVars args @ [squote]]
                                       else cmdArgs)
                        in (Inr cmdArgs, ev)
                      else if Source args = [] then
                        (Inl (Errorf ''source file needs to be set''), ev)
                      else if Target args = [] then
                        (Inl (Errorf ''target path needs to be set''), ev)
                      else
                        (Inr (cmdArgs @ [[dquote] @ Source args @ [dquote], Target args]), ev)))"

text \<open>\<open>Exec\<close>: the sleep, lines 63 to 140, then the upload command (lines 142 to 155).\<close>

definition Exec :: "host \<Rightarrow> 'p Args \<Rightarrow> error option \<times> event list" where
  "Exec h args =
     (let ev0 = putSleep h;
          (r, ev1) = Exec_cmdArgs h args
      in case r of
           Inl e \<Rightarrow> (Some e, ev0 @ ev1)
         | Inr cmdArgs \<Rightarrow>
             let cmdStr = Join cmdArgs '' '';
                 (shell, shArg) = getShell h;
                 cmd = exec_Command shell [shArg, cmdStr];
                 cmd = cmd\<lparr>cmd_Env := os_Environ h\<rparr>;
                 cmd = cmd\<lparr>cmd_Env := cmd_Env cmd @ [''JFROG_CLI_OFFER_CONFIG=false'']\<rparr>;
                 cmd = cmd\<lparr>cmd_Stdout := Some os_Stdout\<rparr>;
                 cmd = cmd\<lparr>cmd_Stderr := Some os_Stderr\<rparr>;
                 ev2 = trace cmd;
                 (err, ev3) = cmd_Run h cmd
             in (err, ev0 @ ev1 @ ev2 @ ev3))"

section \<open>Names for what the claims speak of\<close>

text \<open>The command that \<open>putSleep\<close> builds, and the one that \<open>Exec\<close> builds from its tokens.\<close>

definition sleep_cmd :: "host \<Rightarrow> Cmd" where
  "sleep_cmd h =
     \<lparr>cmd_Args = [fst (getShell h), snd (getShell h), getSleepCommand h],
      cmd_Env = os_Environ h, cmd_Stdout = Some os_Stdout, cmd_Stderr = Some os_Stderr\<rparr>"

definition upload_cmd :: "host \<Rightarrow> string list \<Rightarrow> Cmd" where
  "upload_cmd h toks =
     \<lparr>cmd_Args = [fst (getShell h), snd (getShell h), Join toks '' ''],
      cmd_Env = os_Environ h @ [''JFROG_CLI_OFFER_CONFIG=false''],
      cmd_Stdout = Some os_Stdout, cmd_Stderr = Some os_Stderr\<rparr>"

text \<open>
  The command line as the specification words it (section 4.1, steps 2 to 10): the credential
  selection with its precedence, then the four groups of tokens in their order. These
  definitions follow the specification, not the code; \<open>Exec_cmdArgs\<close> above is the code.
\<close>

datatype auth_mode = UserPassword | ApiKey | Token

definition spec_credentials :: "'p Args \<Rightarrow> auth_mode option" where
  "spec_credentials args =
     (if Username args \<noteq> [] \<and> Password args \<noteq> [] then Some UserPassword
      else if APIKey args \<noteq> [] then Some ApiKey
      else if AccessToken args \<noteq> [] then Some Token
      else None)"

fun spec_mode_flags :: "host \<Rightarrow> auth_mode \<Rightarrow> string list" where
  "spec_mode_flags h UserPassword =
     [''--user '' @ getEnvPrefix h @ ''PLUGIN_USERNAME'',
      ''--password '' @ getEnvPrefix h @ ''PLUGIN_PASSWORD'']"
| "spec_mode_flags h ApiKey = [''--apikey '' @ getEnvPrefix h @ ''PLUGIN_API_KEY'']"
| "spec_mode_flags h Token = [''--access-token '' @ getEnvPrefix h @ ''PLUGIN_ACCESS_TOKEN'']"

definition spec_leading_tokens :: "host \<Rightarrow> 'p Args \<Rightarrow> string list" where
  "spec_leading_tokens h args =
     [getJfrogBin h] @ [''rt'', ''u''] @ [''--url '' @ URL args] @
     (if Retries args \<noteq> 0 then [''--retries='' @ fmt_d (Retries args)] else [])"

definition spec_option_flags :: "'p Args \<Rightarrow> string list" where
  "spec_option_flags args =
     [''--flat='' @ (if parseBoolOrDefault False (Flat args) then ''true'' else ''false'')] @
     (if Threads args > 0 then [''--threads='' @ fmt_d (Threads args)] else []) @
     (if parseBoolOrDefault False (Insecure args) then [''--insecure-tls''] else [])"

definition spec_upload_tokens :: "'p Args \<Rightarrow> string list" where
  "spec_upload_tokens args =
     (if Spec args \<noteq> [] then
        [''--spec='' @ Spec args] @
        (if SpecVars args \<noteq> [] then [''--spec-vars='' @ [squote] @ SpecVars args @ [squote]] else [])
      else [[dquote] @ Source args @ [dquote], Target args])"

definition spec_command_line :: "host \<Rightarrow> 'p Args \<Rightarrow> string list" where
  "spec_command_line h args =
     spec_leading_tokens h args @
     (case spec_credentials args of None \<Rightarrow> [] | Some m \<Rightarrow> spec_mode_flags h m) @
     spec_option_flags args @ spec_upload_tokens args"



text \<open>The events that are file-system calls, and those among them that change the file system.\<close>

fun is_fs_call :: "event \<Rightarrow> bool" where
  "is_fs_call (Os_Stat path) = True"
| "is_fs_call (Os_MkdirAll dir perm) = True"
| "is_fs_call (Os_WriteFile path data perm) = True"
| "is_fs_call ev = False"


text \<open>
  A host and a configuration to evaluate on: a POSIX host where the certificate file does not
  exist yet and every call succeeds (its \<open>filepath.Dir\<close> is given on the default
  certificate path only), and the configuration of the specification's end-to-end scenario.
\<close>

definition posix_host :: host where
  "posix_host =
     \<lparr>GOOS = ''linux'', os_Environ = [''PLUGIN_USERNAME=u'', ''PLUGIN_PASSWORD=p''],
      run_result = (\<lambda>c. None),
      stat_result = (\<lambda>path. Some (LibError True ''no such file or directory'')),
      mkdirall_result = (\<lambda>dir perm. None),
      writefile_result = (\<lambda>path data perm. None),
      filepath_Dir = (\<lambda>path. ''/root/.jfrog/security/certs'')\<rparr>"

definition scenario :: "unit Args" where
  "scenario =
     \<lparr>Pipeline = (), Level = [], Username = ''u'', Password = ''p'', APIKey = [],
      AccessToken = [], URL = ''https://example.com'', Source = ''build/app.zip'',
      Target = ''libs/app.zip'', Retries = 0, Flat = [], Spec = [], Threads = 0, SpecVars = [],
      Insecure = [], PEMFileContents = [], PEMFilePath = []\<rparr>"

text \<open>The scenario in spec-file mode, with every optional flag and certificate content.\<close>

definition all_flags :: "unit Args" where
  "all_flags =
     scenario\<lparr>Retries := 3, Flat := ''true'', Threads := 12, Insecure := ''1'',
              Spec := ''spec.json'', PEMFileContents := ''CERT''\<rparr>"



section \<open>The code, unfolded\<close>

lemma putSleep_events:
  "putSleep h = [Stdout_Printf (''+ %s'' @ [newline]) [Join (cmd_Args (sleep_cmd h)) '' ''], Cmd_Run (sleep_cmd h)]"
  by (simp add: putSleep_def sleep_cmd_def exec_Command_def trace_def cmd_Run_def Let_def
      split: prod.splits)

lemma if_snoc: "(if c then xs @ ys else xs) = xs @ (if c then ys else [])"
  by simp

lemma Exec_cmdArgs_unfold:
  "Exec_cmdArgs h args =
     (if URL args = [] then (Inl (Errorf ''url needs to be set''), [])
      else case spec_credentials args of
        None \<Rightarrow> (Inl (Errorf ''either username/password, api key or access token needs to be set''), [])
      | Some m \<Rightarrow>
         (case createPemFile h args (parseBoolOrDefault False (Insecure args)) of
            (Some e, ev) \<Rightarrow> (Inl e, ev)
          | (None, ev) \<Rightarrow>
               if Spec args \<noteq> [] then (Inr (spec_command_line h args), ev)
               else if Source args = [] then (Inl (Errorf ''source file needs to be set''), ev)
               else if Target args = [] then (Inl (Errorf ''target path needs to be set''), ev)
               else (Inr (spec_command_line h args), ev)))"
proof (cases "URL args = []")
  case True
  then show ?thesis by (simp add: Exec_cmdArgs_def)
next
  case url: False
  obtain pemErr ev where pem:
    "createPemFile h args (parseBoolOrDefault False (Insecure args)) = (pemErr, ev)"
    by (cases "createPemFile h args (parseBoolOrDefault False (Insecure args))") simp
  have auth: "(if Username args \<noteq> [] \<and> Password args \<noteq> [] then
                   Inr (xs @ [''--user '' @ getEnvPrefix h @ ''PLUGIN_USERNAME'',
                                   ''--password '' @ getEnvPrefix h @ ''PLUGIN_PASSWORD''])
                 else if APIKey args \<noteq> [] then
                   Inr (xs @ [''--apikey '' @ getEnvPrefix h @ ''PLUGIN_API_KEY''])
                 else if AccessToken args \<noteq> [] then
                   Inr (xs @ [''--access-token '' @ getEnvPrefix h @ ''PLUGIN_ACCESS_TOKEN''])
                 else
                   Inl (Errorf ''either username/password, api key or access token needs to be set''))
              = (case spec_credentials args of
                   None \<Rightarrow> Inl (Errorf ''either username/password, api key or access token needs to be set'')
                 | Some m \<Rightarrow> Inr (xs @ spec_mode_flags h m))" for xs :: "string list"
    by (simp add: spec_credentials_def)
  show ?thesis
  proof (cases "spec_credentials args")
    case None
    with url show ?thesis
      by (simp add: Exec_cmdArgs_def Let_def auth split del: if_split)
  next
    case (Some m)
    show ?thesis
    proof (cases pemErr)
      case (Some e)
      with url \<open>spec_credentials args = Some m\<close> pem show ?thesis
        by (simp add: Exec_cmdArgs_def Let_def auth split del: if_split)
    next
      case None
      consider (spec) "Spec args \<noteq> []" | (nosrc) "Spec args = []" "Source args = []"
        | (notgt) "Spec args = []" "Source args \<noteq> []" "Target args = []"
        | (both) "Spec args = []" "Source args \<noteq> []" "Target args \<noteq> []"
        by blast
      then show ?thesis
      proof cases
        case spec
        with url \<open>spec_credentials args = Some m\<close> pem None show ?thesis
          by (simp add: Exec_cmdArgs_def Let_def auth spec_command_line_def spec_leading_tokens_def
              spec_option_flags_def spec_upload_tokens_def strconv_FormatBool_def if_snoc split del: if_split)
      next
        case nosrc
        with url \<open>spec_credentials args = Some m\<close> pem None show ?thesis
          by (simp add: Exec_cmdArgs_def Let_def auth split del: if_split)
      next
        case notgt
        with url \<open>spec_credentials args = Some m\<close> pem None show ?thesis
          by (simp add: Exec_cmdArgs_def Let_def auth split del: if_split)
      next
        case both
        with url \<open>spec_credentials args = Some m\<close> pem None show ?thesis
          by (simp add: Exec_cmdArgs_def Let_def auth spec_command_line_def spec_leading_tokens_def
              spec_option_flags_def spec_upload_tokens_def strconv_FormatBool_def if_snoc split del: if_split)
      qed
    qed
  qed
qed

lemma Exec_unfold:
  "Exec h args =
     (case fst (Exec_cmdArgs h args) of
        Inl e \<Rightarrow> (Some e, putSleep h @ snd (Exec_cmdArgs h args))
      | Inr toks \<Rightarrow>
          (run_result h (upload_cmd h toks),
           putSleep h @ snd (Exec_cmdArgs h args) @
           [Stdout_Printf (''+ %s'' @ [newline]) [Join (cmd_Args (upload_cmd h toks)) '' ''],
            Cmd_Run (upload_cmd h toks)]))"
proof (cases "Exec_cmdArgs h args")
  case (Pair r ev)
  then show ?thesis
    by (cases r) (simp_all add: Exec_def upload_cmd_def exec_Command_def trace_def cmd_Run_def Let_def split: prod.splits)
qed

lemma parseBoolOrDefault_False:
  "parseBoolOrDefault False s = (s \<in> {''1'', ''t'', ''T'', ''true'', ''TRUE'', ''True''})"
  by (simp add: parseBoolOrDefault_def strconv_ParseBool_def)

lemma createPemFile_skip:
  "PEMFileContents args = [] \<or> insecure \<Longrightarrow> createPemFile h args insecure = (None, [])"
  by (auto simp add: createPemFile_def)


lemma Exec_cong:
  "Exec_cmdArgs h a = Exec_cmdArgs h b \<Longrightarrow> Exec h a = Exec h b"
  by (simp add: Exec_def)

lemma host_cong:
  assumes "GOOS h' = GOOS h" "stat_result h' = stat_result h"
    "mkdirall_result h' = mkdirall_result h" "writefile_result h' = writefile_result h"
    "filepath_Dir h' = filepath_Dir h"
  shows "Exec_cmdArgs h' args = Exec_cmdArgs h args"
  unfolding Exec_cmdArgs_def createPemFile_def getJfrogBin_def getEnvPrefix_def os_Stat_def
    os_MkdirAll_def os_WriteFile_def assms ..

lemma secrets_cong:
  assumes "(u = []) = (Username args = [])" "(p = []) = (Password args = [])"
    "(k = []) = (APIKey args = [])" "(t = []) = (AccessToken args = [])"
  shows "Exec_cmdArgs h (args\<lparr>Username := u, Password := p, APIKey := k, AccessToken := t\<rparr>)
           = Exec_cmdArgs h args"
proof -
  let ?a = "args\<lparr>Username := u, Password := p, APIKey := k, AccessToken := t\<rparr>"
  have 1: "spec_credentials ?a = spec_credentials args"
    using assms by (simp add: spec_credentials_def)
  have 2: "spec_command_line h ?a = spec_command_line h args"
    by (simp add: spec_command_line_def 1 spec_leading_tokens_def spec_option_flags_def spec_upload_tokens_def)
  have "PEMFileContents ?a = PEMFileContents args" "PEMFilePath ?a = PEMFilePath args"
    by simp_all
  then have 3: "createPemFile h ?a b = createPemFile h args b" for b
    unfolding createPemFile_def by (simp only:)
  show ?thesis
    by (simp add: Exec_cmdArgs_unfold 1 2 3 split: option.splits prod.splits)
qed

lemma source_target_cong:
  assumes "Spec args \<noteq> []"
  shows "Exec_cmdArgs h (args\<lparr>Source := s, Target := t\<rparr>) = Exec_cmdArgs h args"
proof -
  let ?a = "args\<lparr>Source := s, Target := t\<rparr>"
  have 1: "spec_credentials ?a = spec_credentials args"
    by (simp add: spec_credentials_def)
  have 2: "spec_command_line h ?a = spec_command_line h args"
    using assms
    by (simp add: spec_command_line_def 1 spec_leading_tokens_def spec_option_flags_def spec_upload_tokens_def)
  have "PEMFileContents ?a = PEMFileContents args" "PEMFilePath ?a = PEMFilePath args"
    by simp_all
  then have 3: "createPemFile h ?a b = createPemFile h args b" for b
    unfolding createPemFile_def by (simp only:)
  show ?thesis
    using assms by (simp add: Exec_cmdArgs_unfold 1 2 3 split: option.splits prod.splits)
qed

lemma cmdArgs_Inr:
  assumes "fst (Exec_cmdArgs h args) = Inr toks"
  shows "toks = spec_command_line h args" "URL args \<noteq> []" "spec_credentials args \<noteq> None"
  using assms
  by (auto simp add: Exec_cmdArgs_unfold split: if_splits option.splits prod.splits)

lemma Exec_cmdArgs_snd:
  "snd (Exec_cmdArgs h args) =
     (if URL args = [] \<or> spec_credentials args = None then []
      else snd (createPemFile h args (parseBoolOrDefault False (Insecure args))))"
  by (simp add: Exec_cmdArgs_unfold split: option.splits prod.splits)

lemma scenario_cmdArgs:
  "Exec_cmdArgs posix_host scenario =
     (Inr [''jfrog'', ''rt'', ''u'', ''--url https://example.com'', ''--user $PLUGIN_USERNAME'',
           ''--password $PLUGIN_PASSWORD'', ''--flat=false'',
           [dquote] @ ''build/app.zip'' @ [dquote], ''libs/app.zip''], [])"
  by (simp add: Exec_cmdArgs_unfold spec_credentials_def spec_command_line_def spec_leading_tokens_def
      spec_option_flags_def spec_upload_tokens_def createPemFile_skip parseBoolOrDefault_False
      getJfrogBin_def getEnvPrefix_def scenario_def posix_host_def)


lemma fmt_d_small: "fmt_d 3 = ''3''" "fmt_d 12 = ''12''"
  by code_simp+

lemma all_flags_cmdArgs:
  "Exec_cmdArgs posix_host all_flags =
     (Inr [''jfrog'', ''rt'', ''u'', ''--url https://example.com'', ''--retries=3'',
           ''--user $PLUGIN_USERNAME'', ''--password $PLUGIN_PASSWORD'', ''--flat=true'',
           ''--threads=12'', ''--insecure-tls'', ''--spec=spec.json''], [])"
  by (simp add: Exec_cmdArgs_unfold spec_credentials_def spec_command_line_def spec_leading_tokens_def
      spec_option_flags_def spec_upload_tokens_def createPemFile_skip parseBoolOrDefault_False
      getJfrogBin_def getEnvPrefix_def all_flags_def scenario_def posix_host_def fmt_d_small)

section \<open>The claims\<close>

text \<open>
  C2. For every host and every configuration, valid or not, the first two events of \<open>Exec\<close>
  are the trace line and the run of the sleep command, a shell invocation of its own:
  \<open>sh -c "sleep 600"\<close>, or \<open>powershell -Command "Start-Sleep 600"\<close> on Windows, 600
  seconds being ten minutes. Nothing else of \<open>Exec\<close> reaches the outside before it.
\<close>

theorem sleep_is_first_action:
  "take 2 (snd (Exec h args)) =
     [Stdout_Printf (''+ %s'' @ [newline]) [Join (cmd_Args (sleep_cmd h)) '' ''],
      Cmd_Run (sleep_cmd h)]
   \<and> cmd_Args (sleep_cmd h) =
       (if GOOS h = ''windows'' then [''powershell'', ''-Command'', ''Start-Sleep 600'']
        else [''sh'', ''-c'', ''sleep 600''])"
proof -
  have "\<exists>rest. snd (Exec h args) = putSleep h @ rest"
    by (simp add: Exec_unfold split: sum.splits)
  then have "take 2 (snd (Exec h args)) = putSleep h"
    by (auto simp add: putSleep_events)
  moreover have "cmd_Args (sleep_cmd h) =
       (if GOOS h = ''windows'' then [''powershell'', ''-Command'', ''Start-Sleep 600'']
        else [''sh'', ''-c'', ''sleep 600''])"
    by (simp add: sleep_cmd_def getShell_def getSleepCommand_def)
  ultimately show ?thesis
    by (simp add: putSleep_events)
qed

theorem sleep_is_first_action_witness:
  "take 2 (snd (Exec posix_host (scenario\<lparr>URL := []\<rparr>))) =
     [Stdout_Printf (''+ %s'' @ [newline]) [''sh -c sleep 600''],
      Cmd_Run \<lparr>cmd_Args = [''sh'', ''-c'', ''sleep 600''],
               cmd_Env = [''PLUGIN_USERNAME=u'', ''PLUGIN_PASSWORD=p''],
               cmd_Stdout = Some os_Stdout, cmd_Stderr = Some os_Stderr\<rparr>]"
  using sleep_is_first_action [of posix_host "scenario\<lparr>URL := []\<rparr>"]
  by (simp add: sleep_cmd_def getShell_def getSleepCommand_def posix_host_def)

text \<open>
  C1, as stated, fails: with an empty URL a child process is spawned before the failure,
  the shell that sleeps.
\<close>

theorem empty_URL_spawns_sleep_counterexample:
  "URL (scenario\<lparr>URL := []\<rparr>) = [] \<and>
   Cmd_Run \<lparr>cmd_Args = [''sh'', ''-c'', ''sleep 600''],
            cmd_Env = [''PLUGIN_USERNAME=u'', ''PLUGIN_PASSWORD=p''],
            cmd_Stdout = Some os_Stdout, cmd_Stderr = Some os_Stderr\<rparr>
     \<in> set (snd (Exec posix_host (scenario\<lparr>URL := []\<rparr>)))"
  by (simp add: Exec_unfold Exec_cmdArgs_unfold putSleep_events sleep_cmd_def getShell_def
      getSleepCommand_def posix_host_def)

text \<open>
  C1, amended. For every configuration with an empty URL, \<open>Exec\<close> returns the error
  "url needs to be set" (\<open>MissingURL\<close>), and all it has done before is the sleep: its trace
  line and its child process. The upload command is not spawned, and there is no file-system
  call, so no certificate file is written.
\<close>

theorem empty_URL_fails_after_sleep:
  assumes "URL args = []"
  shows "Exec h args =
           (Some (Errorf ''url needs to be set''),
            [Stdout_Printf (''+ %s'' @ [newline]) [Join (cmd_Args (sleep_cmd h)) '' ''],
             Cmd_Run (sleep_cmd h)])"
  using assms by (simp add: Exec_unfold Exec_cmdArgs_unfold putSleep_events)

theorem empty_URL_fails_after_sleep_witness:
  "URL (scenario\<lparr>URL := []\<rparr>) = [] \<and>
   Exec posix_host (scenario\<lparr>URL := []\<rparr>) =
     (Some (Errorf ''url needs to be set''),
      [Stdout_Printf (''+ %s'' @ [newline]) [''sh -c sleep 600''],
       Cmd_Run \<lparr>cmd_Args = [''sh'', ''-c'', ''sleep 600''],
                cmd_Env = [''PLUGIN_USERNAME=u'', ''PLUGIN_PASSWORD=p''],
                cmd_Stdout = Some os_Stdout, cmd_Stderr = Some os_Stderr\<rparr>])"
proof -
  have u: "URL (scenario\<lparr>URL := []\<rparr>) = []" by simp
  show ?thesis
    using u empty_URL_fails_after_sleep [OF u, of posix_host]
    by (simp add: sleep_cmd_def getShell_def getSleepCommand_def posix_host_def)
qed

text \<open>
  C3. The credential flags of a command line are, whatever the secrets hold, one of three
  fixed lists made of the platform's prefix and the name of an environment variable. And
  two configurations that differ only in the contents of the four secret fields, the same
  fields being set in both, give the same run of \<open>Exec\<close>: the same command strings, the
  same trace lines, the same result. So no secret value reaches the command string.
\<close>

theorem secrets_only_by_reference:
  assumes "(u = []) = (Username args = [])" "(p = []) = (Password args = [])"
    "(k = []) = (APIKey args = [])" "(t = []) = (AccessToken args = [])"
  shows "Exec h (args\<lparr>Username := u, Password := p, APIKey := k, AccessToken := t\<rparr>) = Exec h args
    \<and> (\<forall>toks. fst (Exec_cmdArgs h args) = Inr toks \<longrightarrow>
          (\<exists>flags. flags \<in> {[''--user '' @ getEnvPrefix h @ ''PLUGIN_USERNAME'',
                               ''--password '' @ getEnvPrefix h @ ''PLUGIN_PASSWORD''],
                              [''--apikey '' @ getEnvPrefix h @ ''PLUGIN_API_KEY''],
                              [''--access-token '' @ getEnvPrefix h @ ''PLUGIN_ACCESS_TOKEN'']}
             \<and> toks = spec_leading_tokens h args @ flags @ spec_option_flags args @ spec_upload_tokens args))"
proof (intro conjI allI impI)
  show "Exec h (args\<lparr>Username := u, Password := p, APIKey := k, AccessToken := t\<rparr>) = Exec h args"
    using assms by (intro Exec_cong secrets_cong)
next
  fix toks
  assume inr: "fst (Exec_cmdArgs h args) = Inr toks"
  then obtain m where m: "spec_credentials args = Some m"
    using cmdArgs_Inr(3) by blast
  have "toks = spec_leading_tokens h args @ spec_mode_flags h m @ spec_option_flags args @ spec_upload_tokens args"
    using cmdArgs_Inr(1) [OF inr] m by (simp add: spec_command_line_def)
  moreover have "spec_mode_flags h m \<in> {[''--user '' @ getEnvPrefix h @ ''PLUGIN_USERNAME'',
                               ''--password '' @ getEnvPrefix h @ ''PLUGIN_PASSWORD''],
                              [''--apikey '' @ getEnvPrefix h @ ''PLUGIN_API_KEY''],
                              [''--access-token '' @ getEnvPrefix h @ ''PLUGIN_ACCESS_TOKEN'']}"
    by (cases m) simp_all
  ultimately show "\<exists>flags. flags \<in> {[''--user '' @ getEnvPrefix h @ ''PLUGIN_USERNAME'',
                               ''--password '' @ getEnvPrefix h @ ''PLUGIN_PASSWORD''],
                              [''--apikey '' @ getEnvPrefix h @ ''PLUGIN_API_KEY''],
                              [''--access-token '' @ getEnvPrefix h @ ''PLUGIN_ACCESS_TOKEN'']}
             \<and> toks = spec_leading_tokens h args @ flags @ spec_option_flags args @ spec_upload_tokens args"
    by blast
qed

theorem secrets_only_by_reference_witness:
  "Exec posix_host (scenario\<lparr>Username := ''alice'', Password := ''s3cret'', APIKey := [],
                             AccessToken := []\<rparr>) = Exec posix_host scenario
   \<and> Username scenario = ''u'' \<and> Password scenario = ''p''
   \<and> fst (Exec_cmdArgs posix_host scenario) =
       Inr [''jfrog'', ''rt'', ''u'', ''--url https://example.com'', ''--user $PLUGIN_USERNAME'',
            ''--password $PLUGIN_PASSWORD'', ''--flat=false'',
            [dquote] @ ''build/app.zip'' @ [dquote], ''libs/app.zip'']"
proof -
  have "Exec posix_host (scenario\<lparr>Username := ''alice'', Password := ''s3cret'', APIKey := [],
                             AccessToken := []\<rparr>) = Exec posix_host scenario"
    using secrets_only_by_reference [of "''alice''" scenario "''s3cret''" "[]" "[]" posix_host]
    by (simp add: scenario_def)
  then show ?thesis
    by (simp add: scenario_cmdArgs) (simp add: scenario_def)
qed

text \<open>
  C4. Once the URL is set, the credentials are chosen by precedence: the user and password
  flags if both are non-empty, else the API key flag if the key is non-empty, else the
  access token flag; these flags, of one mode only, stand between the leading tokens and the
  option flags. If no mode can be chosen \<open>Exec\<close> fails with "either username/password, api
  key or access token needs to be set" (\<open>MissingCredentials\<close>), having run only the sleep.
\<close>

theorem credential_precedence:
  assumes "URL args \<noteq> []"
  shows "((Username args = [] \<or> Password args = []) \<and> APIKey args = [] \<and> AccessToken args = []
           \<longrightarrow> Exec h args =
                 (Some (Errorf ''either username/password, api key or access token needs to be set''),
                  putSleep h))
    \<and> (\<forall>toks. fst (Exec_cmdArgs h args) = Inr toks \<longrightarrow>
          toks = spec_leading_tokens h args @
                 (if Username args \<noteq> [] \<and> Password args \<noteq> [] then
                    [''--user '' @ getEnvPrefix h @ ''PLUGIN_USERNAME'',
                     ''--password '' @ getEnvPrefix h @ ''PLUGIN_PASSWORD'']
                  else if APIKey args \<noteq> [] then
                    [''--apikey '' @ getEnvPrefix h @ ''PLUGIN_API_KEY'']
                  else
                    [''--access-token '' @ getEnvPrefix h @ ''PLUGIN_ACCESS_TOKEN'']) @
                 spec_option_flags args @ spec_upload_tokens args
          \<and> (Username args \<noteq> [] \<and> Password args \<noteq> [] \<or> APIKey args \<noteq> []
               \<or> AccessToken args \<noteq> []))"
proof (intro conjI allI impI)
  assume "(Username args = [] \<or> Password args = []) \<and> APIKey args = [] \<and> AccessToken args = []"
  then have "spec_credentials args = None"
    by (auto simp add: spec_credentials_def)
  with assms show "Exec h args =
      (Some (Errorf ''either username/password, api key or access token needs to be set''),
       putSleep h)"
    by (simp add: Exec_unfold Exec_cmdArgs_unfold)
next
  fix toks
  assume inr: "fst (Exec_cmdArgs h args) = Inr toks"
  then obtain m where m: "spec_credentials args = Some m"
    using cmdArgs_Inr(3) by blast
  have toks: "toks = spec_leading_tokens h args @ spec_mode_flags h m @ spec_option_flags args @ spec_upload_tokens args"
    using cmdArgs_Inr(1) [OF inr] m by (simp add: spec_command_line_def)
  have "spec_mode_flags h m =
         (if Username args \<noteq> [] \<and> Password args \<noteq> [] then
                    [''--user '' @ getEnvPrefix h @ ''PLUGIN_USERNAME'',
                     ''--password '' @ getEnvPrefix h @ ''PLUGIN_PASSWORD'']
                  else if APIKey args \<noteq> [] then
                    [''--apikey '' @ getEnvPrefix h @ ''PLUGIN_API_KEY'']
                  else
                    [''--access-token '' @ getEnvPrefix h @ ''PLUGIN_ACCESS_TOKEN''])"
    using m by (auto simp add: spec_credentials_def split: if_splits)
  with toks show "toks = spec_leading_tokens h args @
                 (if Username args \<noteq> [] \<and> Password args \<noteq> [] then
                    [''--user '' @ getEnvPrefix h @ ''PLUGIN_USERNAME'',
                     ''--password '' @ getEnvPrefix h @ ''PLUGIN_PASSWORD'']
                  else if APIKey args \<noteq> [] then
                    [''--apikey '' @ getEnvPrefix h @ ''PLUGIN_API_KEY'']
                  else
                    [''--access-token '' @ getEnvPrefix h @ ''PLUGIN_ACCESS_TOKEN'']) @
                 spec_option_flags args @ spec_upload_tokens args"
    by simp
  show "Username args \<noteq> [] \<and> Password args \<noteq> [] \<or> APIKey args \<noteq> [] \<or> AccessToken args \<noteq> []"
    using m by (auto simp add: spec_credentials_def split: if_splits)
qed

theorem credential_precedence_witness:
  "URL (scenario\<lparr>APIKey := ''k'', AccessToken := ''t''\<rparr>) \<noteq> []
   \<and> fst (Exec_cmdArgs posix_host (scenario\<lparr>APIKey := ''k'', AccessToken := ''t''\<rparr>)) =
       Inr [''jfrog'', ''rt'', ''u'', ''--url https://example.com'', ''--user $PLUGIN_USERNAME'',
            ''--password $PLUGIN_PASSWORD'', ''--flat=false'',
            [dquote] @ ''build/app.zip'' @ [dquote], ''libs/app.zip'']
   \<and> URL (scenario\<lparr>Username := [], Password := []\<rparr>) \<noteq> []
   \<and> Exec posix_host (scenario\<lparr>Username := [], Password := []\<rparr>) =
       (Some (Errorf ''either username/password, api key or access token needs to be set''),
        [Stdout_Printf (''+ %s'' @ [newline]) [''sh -c sleep 600''],
         Cmd_Run \<lparr>cmd_Args = [''sh'', ''-c'', ''sleep 600''],
                  cmd_Env = [''PLUGIN_USERNAME=u'', ''PLUGIN_PASSWORD=p''],
                  cmd_Stdout = Some os_Stdout, cmd_Stderr = Some os_Stderr\<rparr>])"
proof -
  let ?a = "scenario\<lparr>APIKey := ''k'', AccessToken := ''t''\<rparr>"
  let ?b = "scenario\<lparr>Username := [], Password := []\<rparr>"
  have ua: "URL ?a \<noteq> []" and ub: "URL ?b \<noteq> []"
    by (simp_all add: scenario_def)
  have inr: "fst (Exec_cmdArgs posix_host ?a) = Inr (spec_command_line posix_host ?a)"
    by (simp add: Exec_cmdArgs_unfold spec_credentials_def createPemFile_skip scenario_def)
  have "spec_command_line posix_host ?a =
       [''jfrog'', ''rt'', ''u'', ''--url https://example.com'', ''--user $PLUGIN_USERNAME'',
            ''--password $PLUGIN_PASSWORD'', ''--flat=false'',
            [dquote] @ ''build/app.zip'' @ [dquote], ''libs/app.zip'']"
    using credential_precedence [OF ua, of posix_host] inr
    by (simp add: spec_leading_tokens_def spec_option_flags_def spec_upload_tokens_def parseBoolOrDefault_False
        getJfrogBin_def getEnvPrefix_def scenario_def posix_host_def)
  moreover have "Exec posix_host ?b =
       (Some (Errorf ''either username/password, api key or access token needs to be set''),
        putSleep posix_host)"
    using credential_precedence [OF ub, of posix_host]
    by (simp add: scenario_def)
  ultimately show ?thesis
    using ua ub inr
    by (simp add: putSleep_events sleep_cmd_def getShell_def getSleepCommand_def posix_host_def)
qed

text \<open>
  C5. Where the URL and the credentials are valid and the pem file step does not fail:
  with a non-empty \<open>Spec\<close> the command line ends with the spec flag, followed by the
  single-quoted spec-vars flag if \<open>SpecVars\<close> is non-empty, and \<open>Source\<close> and \<open>Target\<close>
  have no influence on \<open>Exec\<close> at all (so they are neither required nor emitted); with an
  empty \<open>Spec\<close>, an empty \<open>Source\<close> gives "source file needs to be set"
  (\<open>MissingSource\<close>), a non-empty \<open>Source\<close> with an empty \<open>Target\<close> gives "target path
  needs to be set" (\<open>MissingTarget\<close>), and otherwise the quoted source and the target end
  the command line, with no spec flag.
\<close>

theorem spec_or_source_target:
  assumes "URL args \<noteq> []" "spec_credentials args = Some m"
    "fst (createPemFile h args (parseBoolOrDefault False (Insecure args))) = None"
  shows "(Spec args \<noteq> [] \<longrightarrow>
            fst (Exec_cmdArgs h args) =
              Inr (spec_leading_tokens h args @ spec_mode_flags h m @ spec_option_flags args @
                   [''--spec='' @ Spec args] @
                   (if SpecVars args \<noteq> []
                    then [''--spec-vars='' @ [squote] @ SpecVars args @ [squote]] else []))
            \<and> (\<forall>s t. Exec h (args\<lparr>Source := s, Target := t\<rparr>) = Exec h args))
       \<and> (Spec args = [] \<and> Source args = [] \<longrightarrow>
            Exec h args =
              (Some (Errorf ''source file needs to be set''),
               putSleep h @ snd (createPemFile h args (parseBoolOrDefault False (Insecure args)))))
       \<and> (Spec args = [] \<and> Source args \<noteq> [] \<and> Target args = [] \<longrightarrow>
            Exec h args =
              (Some (Errorf ''target path needs to be set''),
               putSleep h @ snd (createPemFile h args (parseBoolOrDefault False (Insecure args)))))
       \<and> (Spec args = [] \<and> Source args \<noteq> [] \<and> Target args \<noteq> [] \<longrightarrow>
            fst (Exec_cmdArgs h args) =
              Inr (spec_leading_tokens h args @ spec_mode_flags h m @ spec_option_flags args @
                   [[dquote] @ Source args @ [dquote], Target args]))"
proof -
  obtain ev where pem:
    "createPemFile h args (parseBoolOrDefault False (Insecure args)) = (None, ev)"
    using assms(3)
    by (cases "createPemFile h args (parseBoolOrDefault False (Insecure args))") simp
  have build: "Exec_cmdArgs h args =
     (if Spec args \<noteq> [] then (Inr (spec_command_line h args), ev)
      else if Source args = [] then (Inl (Errorf ''source file needs to be set''), ev)
      else if Target args = [] then (Inl (Errorf ''target path needs to be set''), ev)
      else (Inr (spec_command_line h args), ev))"
    using assms(1,2) pem by (simp add: Exec_cmdArgs_unfold)
  have line: "spec_command_line h args =
      spec_leading_tokens h args @ spec_mode_flags h m @ spec_option_flags args @ spec_upload_tokens args"
    using assms(2) by (simp add: spec_command_line_def)
  have 1: "Spec args \<noteq> [] \<Longrightarrow> fst (Exec_cmdArgs h args) =
              Inr (spec_leading_tokens h args @ spec_mode_flags h m @ spec_option_flags args @
                   [''--spec='' @ Spec args] @
                   (if SpecVars args \<noteq> []
                    then [''--spec-vars='' @ [squote] @ SpecVars args @ [squote]] else []))"
    by (simp add: build line spec_upload_tokens_def)
  have 2: "Spec args \<noteq> [] \<Longrightarrow> Exec h (args\<lparr>Source := s, Target := t\<rparr>) = Exec h args" for s t
    by (intro Exec_cong source_target_cong)
  have 3: "Spec args = [] \<and> Source args = [] \<Longrightarrow> Exec h args =
              (Some (Errorf ''source file needs to be set''),
               putSleep h @ snd (createPemFile h args (parseBoolOrDefault False (Insecure args))))"
    by (simp add: Exec_unfold build pem)
  have 4: "Spec args = [] \<and> Source args \<noteq> [] \<and> Target args = [] \<Longrightarrow> Exec h args =
              (Some (Errorf ''target path needs to be set''),
               putSleep h @ snd (createPemFile h args (parseBoolOrDefault False (Insecure args))))"
    by (simp add: Exec_unfold build pem)
  have 5: "Spec args = [] \<and> Source args \<noteq> [] \<and> Target args \<noteq> [] \<Longrightarrow>
            fst (Exec_cmdArgs h args) =
              Inr (spec_leading_tokens h args @ spec_mode_flags h m @ spec_option_flags args @
                   [[dquote] @ Source args @ [dquote], Target args])"
    by (simp add: build line spec_upload_tokens_def)
  from 1 2 3 4 5 show ?thesis by blast
qed

theorem spec_or_source_target_witness:
  "URL (scenario\<lparr>Spec := ''spec.json'', SpecVars := ''a=b'', Source := [], Target := []\<rparr>) \<noteq> []
   \<and> fst (Exec_cmdArgs posix_host
            (scenario\<lparr>Spec := ''spec.json'', SpecVars := ''a=b'', Source := [], Target := []\<rparr>)) =
       Inr [''jfrog'', ''rt'', ''u'', ''--url https://example.com'', ''--user $PLUGIN_USERNAME'',
            ''--password $PLUGIN_PASSWORD'', ''--flat=false'', ''--spec=spec.json'',
            ''--spec-vars='' @ [squote] @ ''a=b'' @ [squote]]
   \<and> Spec (scenario\<lparr>Source := []\<rparr>) = []
   \<and> fst (Exec posix_host (scenario\<lparr>Source := []\<rparr>)) =
       Some (Errorf ''source file needs to be set'')
   \<and> fst (Exec posix_host (scenario\<lparr>Target := []\<rparr>)) =
       Some (Errorf ''target path needs to be set'')"
proof -
  let ?a = "scenario\<lparr>Spec := ''spec.json'', SpecVars := ''a=b'', Source := [], Target := []\<rparr>"
  let ?b = "scenario\<lparr>Source := []\<rparr>"
  let ?c = "scenario\<lparr>Target := []\<rparr>"
  have url: "URL ?a \<noteq> []" "URL ?b \<noteq> []" "URL ?c \<noteq> []"
    by (simp_all add: scenario_def)
  have cred: "spec_credentials ?a = Some UserPassword"
    "spec_credentials ?b = Some UserPassword" "spec_credentials ?c = Some UserPassword"
    by (simp_all add: spec_credentials_def scenario_def)
  have pem: "fst (createPemFile posix_host ?a (parseBoolOrDefault False (Insecure ?a))) = None"
    "fst (createPemFile posix_host ?b (parseBoolOrDefault False (Insecure ?b))) = None"
    "fst (createPemFile posix_host ?c (parseBoolOrDefault False (Insecure ?c))) = None"
    by (simp_all add: createPemFile_skip scenario_def)
  have "fst (Exec_cmdArgs posix_host ?a) =
       Inr [''jfrog'', ''rt'', ''u'', ''--url https://example.com'', ''--user $PLUGIN_USERNAME'',
            ''--password $PLUGIN_PASSWORD'', ''--flat=false'', ''--spec=spec.json'',
            ''--spec-vars='' @ [squote] @ ''a=b'' @ [squote]]"
    using spec_or_source_target [OF url(1) cred(1) pem(1)]
    by (simp add: spec_leading_tokens_def spec_option_flags_def parseBoolOrDefault_False
        getJfrogBin_def getEnvPrefix_def scenario_def posix_host_def)
  moreover have "fst (Exec posix_host ?b) = Some (Errorf ''source file needs to be set'')"
    using spec_or_source_target [OF url(2) cred(2) pem(2)]
    by (simp add: scenario_def)
  moreover have "fst (Exec posix_host ?c) = Some (Errorf ''target path needs to be set'')"
    using spec_or_source_target [OF url(3) cred(3) pem(3)]
    by (simp add: scenario_def)
  ultimately show ?thesis
    using url(1) by (simp add: scenario_def)
qed




text \<open>
  C7. When \<open>strconv.ParseBool\<close> reads \<open>Insecure\<close> as true, the pem file step does
  nothing, whatever \<open>PEMFileContents\<close> holds; the whole run of \<open>Exec\<close> makes no
  file-system call; and every command line produced has \<open>--insecure-tls\<close> right before
  the spec flags or the source and target.
\<close>

theorem insecure_skips_pem_file:
  assumes "strconv_ParseBool (Insecure args) = (True, None)"
  shows "createPemFile h args (parseBoolOrDefault False (Insecure args)) = (None, [])
       \<and> filter is_fs_call (snd (Exec h args)) = []
       \<and> (\<forall>toks. fst (Exec_cmdArgs h args) = Inr toks \<longrightarrow>
             (\<exists>front. toks = front @ [''--insecure-tls''] @ spec_upload_tokens args))"
proof (intro conjI allI impI)
  have ins: "parseBoolOrDefault False (Insecure args)"
    using assms by (simp add: parseBoolOrDefault_def)
  then show skip: "createPemFile h args (parseBoolOrDefault False (Insecure args)) = (None, [])"
    by (simp add: createPemFile_skip)
  then have "snd (Exec_cmdArgs h args) = []"
    by (simp add: Exec_cmdArgs_snd)
  then show "filter is_fs_call (snd (Exec h args)) = []"
    by (simp add: Exec_unfold putSleep_events split: sum.splits)
  fix toks
  assume "fst (Exec_cmdArgs h args) = Inr toks"
  then have "toks = spec_command_line h args"
    by (rule cmdArgs_Inr(1))
  then have "toks =
      (spec_leading_tokens h args @
       (case spec_credentials args of None \<Rightarrow> [] | Some m \<Rightarrow> spec_mode_flags h m) @
       [''--flat='' @ (if parseBoolOrDefault False (Flat args) then ''true'' else ''false'')] @
       (if Threads args > 0 then [''--threads='' @ fmt_d (Threads args)] else [])) @
      [''--insecure-tls''] @ spec_upload_tokens args"
    using ins by (simp add: spec_command_line_def spec_option_flags_def)
  then show "\<exists>front. toks = front @ [''--insecure-tls''] @ spec_upload_tokens args"
    by blast
qed

theorem insecure_skips_pem_file_witness:
  "strconv_ParseBool (Insecure all_flags) = (True, None)
   \<and> PEMFileContents all_flags = ''CERT''
   \<and> createPemFile posix_host all_flags (parseBoolOrDefault False (Insecure all_flags)) = (None, [])
   \<and> filter is_fs_call (snd (Exec posix_host all_flags)) = []
   \<and> fst (Exec_cmdArgs posix_host all_flags) =
       Inr [''jfrog'', ''rt'', ''u'', ''--url https://example.com'', ''--retries=3'',
            ''--user $PLUGIN_USERNAME'', ''--password $PLUGIN_PASSWORD'', ''--flat=true'',
            ''--threads=12'', ''--insecure-tls'', ''--spec=spec.json'']"
proof -
  have p: "strconv_ParseBool (Insecure all_flags) = (True, None)"
    by (simp add: strconv_ParseBool_def all_flags_def)
  have c: "PEMFileContents all_flags = ''CERT''"
    by (simp add: all_flags_def)
  have "createPemFile posix_host all_flags (parseBoolOrDefault False (Insecure all_flags)) = (None, [])
      \<and> filter is_fs_call (snd (Exec posix_host all_flags)) = []"
    using insecure_skips_pem_file [OF p, of posix_host] by blast
  then show ?thesis
    using p c by (simp add: all_flags_cmdArgs)
qed

text \<open>
  C8. Every command line that lines 63 to 140 produce is, in this order: the binary, the
  tokens \<open>rt\<close> and \<open>u\<close>, the URL flag, the retries flag if \<open>Retries\<close> is not zero, the
  credential flags, the flat flag (always there, and \<open>false\<close> unless \<open>Flat\<close> is one of the
  six spellings \<open>strconv.ParseBool\<close> reads as true; in particular \<open>false\<close> when it cannot be
  parsed), the threads flag if \<open>Threads\<close> is positive, the insecure flag if \<open>Insecure\<close>
  reads as true, and last either the spec flags or the double-quoted source and the target.
  \<open>Exec\<close> joins these tokens with single spaces into the one command string it hands to
  the shell. The witness is the specification's scenario with user name and password,
  source and target: its command line ends with the quoted source and the target.
\<close>

theorem command_line_order:
  assumes "fst (Exec_cmdArgs h args) = Inr toks"
  shows "toks =
           [getJfrogBin h] @ [''rt'', ''u''] @ [''--url '' @ URL args] @
           (if Retries args \<noteq> 0 then [''--retries='' @ fmt_d (Retries args)] else []) @
           (if Username args \<noteq> [] \<and> Password args \<noteq> [] then
              [''--user '' @ getEnvPrefix h @ ''PLUGIN_USERNAME'',
               ''--password '' @ getEnvPrefix h @ ''PLUGIN_PASSWORD'']
            else if APIKey args \<noteq> [] then
              [''--apikey '' @ getEnvPrefix h @ ''PLUGIN_API_KEY'']
            else
              [''--access-token '' @ getEnvPrefix h @ ''PLUGIN_ACCESS_TOKEN'']) @
           [''--flat='' @
            (if Flat args \<in> {''1'', ''t'', ''T'', ''true'', ''TRUE'', ''True''}
             then ''true'' else ''false'')] @
           (if Threads args > 0 then [''--threads='' @ fmt_d (Threads args)] else []) @
           (if Insecure args \<in> {''1'', ''t'', ''T'', ''true'', ''TRUE'', ''True''}
            then [''--insecure-tls''] else []) @
           (if Spec args \<noteq> [] then
              [''--spec='' @ Spec args] @
              (if SpecVars args \<noteq> []
               then [''--spec-vars='' @ [squote] @ SpecVars args @ [squote]] else [])
            else [[dquote] @ Source args @ [dquote], Target args])
       \<and> (snd (strconv_ParseBool (Flat args)) \<noteq> None \<longrightarrow> ''--flat=false'' \<in> set toks)
       \<and> Exec h args =
           (run_result h (upload_cmd h toks),
            putSleep h @ snd (Exec_cmdArgs h args) @
            [Stdout_Printf (''+ %s'' @ [newline])
               [Join [fst (getShell h), snd (getShell h), Join toks '' ''] '' ''],
             Cmd_Run (upload_cmd h toks)])
       \<and> cmd_Args (upload_cmd h toks) = [fst (getShell h), snd (getShell h), Join toks '' '']"
proof -
  obtain m where m: "spec_credentials args = Some m"
    using cmdArgs_Inr(3) [OF assms] by blast
  have flags: "spec_mode_flags h m =
         (if Username args \<noteq> [] \<and> Password args \<noteq> [] then
              [''--user '' @ getEnvPrefix h @ ''PLUGIN_USERNAME'',
               ''--password '' @ getEnvPrefix h @ ''PLUGIN_PASSWORD'']
            else if APIKey args \<noteq> [] then
              [''--apikey '' @ getEnvPrefix h @ ''PLUGIN_API_KEY'']
            else
              [''--access-token '' @ getEnvPrefix h @ ''PLUGIN_ACCESS_TOKEN''])"
    using m by (auto simp add: spec_credentials_def split: if_splits)
  have "toks = spec_leading_tokens h args @ spec_mode_flags h m @ spec_option_flags args @ spec_upload_tokens args"
    using cmdArgs_Inr(1) [OF assms] m by (simp add: spec_command_line_def)
  then have 1: "toks =
           [getJfrogBin h] @ [''rt'', ''u''] @ [''--url '' @ URL args] @
           (if Retries args \<noteq> 0 then [''--retries='' @ fmt_d (Retries args)] else []) @
           (if Username args \<noteq> [] \<and> Password args \<noteq> [] then
              [''--user '' @ getEnvPrefix h @ ''PLUGIN_USERNAME'',
               ''--password '' @ getEnvPrefix h @ ''PLUGIN_PASSWORD'']
            else if APIKey args \<noteq> [] then
              [''--apikey '' @ getEnvPrefix h @ ''PLUGIN_API_KEY'']
            else
              [''--access-token '' @ getEnvPrefix h @ ''PLUGIN_ACCESS_TOKEN'']) @
           [''--flat='' @
            (if Flat args \<in> {''1'', ''t'', ''T'', ''true'', ''TRUE'', ''True''}
             then ''true'' else ''false'')] @
           (if Threads args > 0 then [''--threads='' @ fmt_d (Threads args)] else []) @
           (if Insecure args \<in> {''1'', ''t'', ''T'', ''true'', ''TRUE'', ''True''}
            then [''--insecure-tls''] else []) @
           (if Spec args \<noteq> [] then
              [''--spec='' @ Spec args] @
              (if SpecVars args \<noteq> []
               then [''--spec-vars='' @ [squote] @ SpecVars args @ [squote]] else [])
            else [[dquote] @ Source args @ [dquote], Target args])"
    unfolding flags spec_leading_tokens_def spec_option_flags_def spec_upload_tokens_def
      parseBoolOrDefault_False append_assoc .
  have "\<not> parseBoolOrDefault False (Flat args)" if "snd (strconv_ParseBool (Flat args)) \<noteq> None"
    using that by (cases "strconv_ParseBool (Flat args)") (auto simp add: parseBoolOrDefault_def)
  then have 2: "''--flat=false'' \<in> set toks" if "snd (strconv_ParseBool (Flat args)) \<noteq> None"
    using that \<open>toks = spec_leading_tokens h args @ spec_mode_flags h m @ spec_option_flags args @ spec_upload_tokens args\<close>
    by (simp add: spec_option_flags_def)
  have 3: "Exec h args =
           (run_result h (upload_cmd h toks),
            putSleep h @ snd (Exec_cmdArgs h args) @
            [Stdout_Printf (''+ %s'' @ [newline])
               [Join [fst (getShell h), snd (getShell h), Join toks '' ''] '' ''],
             Cmd_Run (upload_cmd h toks)])"
    using assms by (simp add: Exec_unfold upload_cmd_def)
  have 4: "cmd_Args (upload_cmd h toks) = [fst (getShell h), snd (getShell h), Join toks '' '']"
    by (simp add: upload_cmd_def)
  from 1 2 3 4 show ?thesis by blast
qed


theorem command_line_order_witness:
  "fst (Exec_cmdArgs posix_host all_flags) =
     Inr [''jfrog'', ''rt'', ''u'', ''--url https://example.com'', ''--retries=3'',
          ''--user $PLUGIN_USERNAME'', ''--password $PLUGIN_PASSWORD'', ''--flat=true'',
          ''--threads=12'', ''--insecure-tls'', ''--spec=spec.json'']
   \<and> fst (Exec_cmdArgs posix_host scenario) =
     Inr [''jfrog'', ''rt'', ''u'', ''--url https://example.com'', ''--user $PLUGIN_USERNAME'',
          ''--password $PLUGIN_PASSWORD'', ''--flat=false'',
          [dquote] @ ''build/app.zip'' @ [dquote], ''libs/app.zip'']
   \<and> Exec posix_host scenario =
       (None,
        [Stdout_Printf (''+ %s'' @ [newline]) [''sh -c sleep 600''],
         Cmd_Run \<lparr>cmd_Args = [''sh'', ''-c'', ''sleep 600''],
                  cmd_Env = [''PLUGIN_USERNAME=u'', ''PLUGIN_PASSWORD=p''],
                  cmd_Stdout = Some os_Stdout, cmd_Stderr = Some os_Stderr\<rparr>,
         Stdout_Printf (''+ %s'' @ [newline])
           [''sh -c jfrog rt u --url https://example.com --user $PLUGIN_USERNAME '' @
            ''--password $PLUGIN_PASSWORD --flat=false '' @
            [dquote] @ ''build/app.zip'' @ [dquote] @ '' libs/app.zip''],
         Cmd_Run \<lparr>cmd_Args = [''sh'', ''-c'',
                    ''jfrog rt u --url https://example.com --user $PLUGIN_USERNAME '' @
                    ''--password $PLUGIN_PASSWORD --flat=false '' @
                    [dquote] @ ''build/app.zip'' @ [dquote] @ '' libs/app.zip''],
                  cmd_Env = [''PLUGIN_USERNAME=u'', ''PLUGIN_PASSWORD=p'',
                             ''JFROG_CLI_OFFER_CONFIG=false''],
                  cmd_Stdout = Some os_Stdout, cmd_Stderr = Some os_Stderr\<rparr>])"
proof -
  let ?toks = "[''jfrog'', ''rt'', ''u'', ''--url https://example.com'', ''--user $PLUGIN_USERNAME'',
          ''--password $PLUGIN_PASSWORD'', ''--flat=false'',
          [dquote] @ ''build/app.zip'' @ [dquote], ''libs/app.zip'']"
  have inr: "fst (Exec_cmdArgs posix_host scenario) = Inr ?toks"
    by (simp add: scenario_cmdArgs)
  have ev: "snd (Exec_cmdArgs posix_host scenario) = []"
    by (simp add: scenario_cmdArgs)
  have "Exec posix_host scenario =
           (run_result posix_host (upload_cmd posix_host ?toks),
            putSleep posix_host @ snd (Exec_cmdArgs posix_host scenario) @
            [Stdout_Printf (''+ %s'' @ [newline])
               [Join [fst (getShell posix_host), snd (getShell posix_host), Join ?toks '' ''] '' ''],
             Cmd_Run (upload_cmd posix_host ?toks)])"
    using command_line_order [OF inr] by blast
  then have "Exec posix_host scenario =
           (run_result posix_host (upload_cmd posix_host ?toks),
            putSleep posix_host @
            [Stdout_Printf (''+ %s'' @ [newline])
               [Join [fst (getShell posix_host), snd (getShell posix_host), Join ?toks '' ''] '' ''],
             Cmd_Run (upload_cmd posix_host ?toks)])"
    by (simp only: ev append_Nil)
  then have "Exec posix_host scenario =
       (None,
        [Stdout_Printf (''+ %s'' @ [newline]) [''sh -c sleep 600''],
         Cmd_Run \<lparr>cmd_Args = [''sh'', ''-c'', ''sleep 600''],
                  cmd_Env = [''PLUGIN_USERNAME=u'', ''PLUGIN_PASSWORD=p''],
                  cmd_Stdout = Some os_Stdout, cmd_Stderr = Some os_Stderr\<rparr>,
         Stdout_Printf (''+ %s'' @ [newline])
           [''sh -c jfrog rt u --url https://example.com --user $PLUGIN_USERNAME '' @
            ''--password $PLUGIN_PASSWORD --flat=false '' @
            [dquote] @ ''build/app.zip'' @ [dquote] @ '' libs/app.zip''],
         Cmd_Run \<lparr>cmd_Args = [''sh'', ''-c'',
                    ''jfrog rt u --url https://example.com --user $PLUGIN_USERNAME '' @
                    ''--password $PLUGIN_PASSWORD --flat=false '' @
                    [dquote] @ ''build/app.zip'' @ [dquote] @ '' libs/app.zip''],
                  cmd_Env = [''PLUGIN_USERNAME=u'', ''PLUGIN_PASSWORD=p'',
                             ''JFROG_CLI_OFFER_CONFIG=false''],
                  cmd_Stdout = Some os_Stdout, cmd_Stderr = Some os_Stderr\<rparr>])"
    by (simp add: putSleep_events sleep_cmd_def upload_cmd_def getShell_def
        getSleepCommand_def posix_host_def)
  then show ?thesis
    using inr by (simp add: all_flags_cmdArgs)
qed



text \<open>
  C10. Whatever \<open>cmd.Run()\<close> returns for the sleep command, an error or \<open>nil\<close>, the events
  of \<open>putSleep\<close> and the whole outcome of \<open>Exec\<close>, its result and its events, are the
  same: the sleep's error is dropped, and no later step depends on it.
\<close>

theorem sleep_outcome_ignored:
  "putSleep (h\<lparr>run_result := (run_result h)(sleep_cmd h := r)\<rparr>) = putSleep h
   \<and> Exec (h\<lparr>run_result := (run_result h)(sleep_cmd h := r)\<rparr>) args = Exec h args"
proof -
  let ?h = "h\<lparr>run_result := (run_result h)(sleep_cmd h := r)\<rparr>"
  have sleep: "putSleep ?h = putSleep h"
    by (simp add: putSleep_events sleep_cmd_def getShell_def getSleepCommand_def)
  have build: "Exec_cmdArgs ?h args = Exec_cmdArgs h args"
    by (rule host_cong) simp_all
  have cmd: "upload_cmd ?h toks = upload_cmd h toks" for toks
    by (simp add: upload_cmd_def getShell_def)
  have "cmd_Env (upload_cmd h toks) \<noteq> cmd_Env (sleep_cmd h)" for toks
    by (simp add: upload_cmd_def sleep_cmd_def)
  then have "upload_cmd h toks \<noteq> sleep_cmd h" for toks
    by metis
  then have "run_result ?h (upload_cmd h toks) = run_result h (upload_cmd h toks)" for toks
    by simp
  then have "Exec ?h args = Exec h args"
    unfolding Exec_unfold [of ?h] Exec_unfold [of h] sleep build cmd
    by (simp split: sum.splits)
  with sleep show ?thesis
    by simp
qed

theorem sleep_outcome_ignored_witness:
  "Exec (posix_host\<lparr>run_result :=
           (run_result posix_host)(sleep_cmd posix_host := Some (LibError False ''exit status 1''))\<rparr>)
        scenario = Exec posix_host scenario
   \<and> run_result (posix_host\<lparr>run_result :=
           (run_result posix_host)(sleep_cmd posix_host := Some (LibError False ''exit status 1''))\<rparr>)
         (sleep_cmd posix_host) = Some (LibError False ''exit status 1'')
   \<and> fst (Exec posix_host scenario) = None"
proof -
  have "fst (Exec posix_host scenario) = None"
    by (simp add: Exec_unfold scenario_cmdArgs) (simp add: posix_host_def)
  then show ?thesis
    using sleep_outcome_ignored [of posix_host "Some (LibError False ''exit status 1'')" scenario]
    by simp
qed

end
